theory Spec2Isabelle
  imports Main "HOL-Library.Word"
begin

unbundle bit_operations_syntax

section \<open>JavaScript values\<close>

text \<open>
  A JavaScript string is a sequence of UTF-16 code units; \<open>charCodeAt\<close> reads one
  of them as a number between 0 and 65535. String literals of the source are ASCII (with
  one exception, spelled out where it occurs) and are written through \<open>utf16\<close>.
\<close>

type_synonym js_string = "16 word list"

definition utf16 :: "string \<Rightarrow> js_string" where
  "utf16 s = map (\<lambda>c. of_nat (of_char c)) s"

text \<open>
  The numbers the code computes with are integers of small magnitude (exact in a double)
  and \<open>NaN\<close>, the result of a remainder by zero.
\<close>

datatype number = Num int | NaN

text \<open>
  \<open>ApplicationError\<close> and \<open>ErrorCodes\<close> come from \<open>utils/error-boundary.js\<close>:
  an error object carrying a message and one of the codes.
\<close>

datatype ErrorCodes = INVALID_STATE | INVALID_PARAMETER

datatype js_value =
    JUndefined
  | JNull
  | JBoolean bool
  | JNumber number
  | JString js_string
  | JArray "js_value list"
  | JObject "(js_string \<times> js_value) list"
  | JError js_string
  | JTypeError js_string
  | ApplicationError js_string ErrorCodes

text \<open>
  A computation either returns a value (\<open>Inr\<close>) or throws one (\<open>Inl\<close>); a rejected
  promise that is awaited throws its reason. Anything can be thrown, \<open>undefined\<close>
  included.
\<close>

type_synonym 'a completion = "js_value + 'a"

text \<open>\<open>if (v)\<close>, \<open>!v\<close> and \<open>v || w\<close> test truthiness.\<close>

fun truthy :: "js_value \<Rightarrow> bool" where
  "truthy JUndefined = False"
| "truthy JNull = False"
| "truthy (JBoolean b) = b"
| "truthy (JNumber (Num n)) = (n \<noteq> 0)"
| "truthy (JNumber NaN) = False"
| "truthy (JString s) = (s \<noteq> [])"
| "truthy (JArray xs) = True"
| "truthy (JObject ps) = True"
| "truthy (JError m) = True"
| "truthy (JTypeError m) = True"
| "truthy (ApplicationError m c) = True"

text \<open>The two quotation marks, and the texts of the engine's \<open>TypeError\<close>s.\<close>

definition quote :: js_string where
  "quote = [0x22]"

definition apostrophe :: js_string where
  "apostrophe = [0x27]"

definition cannot_read :: "string \<Rightarrow> string \<Rightarrow> js_value" where
  "cannot_read v p =
     JTypeError (utf16 ''Cannot read properties of '' @ utf16 v @ utf16 '' (reading ''
       @ apostrophe @ utf16 p @ apostrophe @ utf16 '')'')"

definition not_a_function :: "string \<Rightarrow> js_value" where
  "not_a_function e = JTypeError (utf16 e @ utf16 '' is not a function'')"

text \<open>
  The property read \<open>error.message\<close>. On \<open>undefined\<close> and \<open>null\<close> it throws a
  \<open>TypeError\<close> (the text is the engine's; V8's is used); on an error object it is the
  message; on a plain object it is the property or \<open>undefined\<close>; on every other value
  it is \<open>undefined\<close>.
\<close>

fun read_message :: "js_value \<Rightarrow> js_value completion" where
  "read_message JUndefined = Inl (cannot_read ''undefined'' ''message'')"
| "read_message JNull = Inl (cannot_read ''null'' ''message'')"
| "read_message (JError m) = Inr (JString m)"
| "read_message (JTypeError m) = Inr (JString m)"
| "read_message (ApplicationError m c) = Inr (JString m)"
| "read_message (JObject ps) =
     Inr (case map_of ps (utf16 ''message'') of None \<Rightarrow> JUndefined | Some v \<Rightarrow> v)"
| "read_message (JBoolean b) = Inr JUndefined"
| "read_message (JNumber n) = Inr JUndefined"
| "read_message (JString s) = Inr JUndefined"
| "read_message (JArray xs) = Inr JUndefined"

text \<open>Reading a member of a returned object: \<open>undefined\<close> when it is not there.\<close>

definition member :: "js_value \<Rightarrow> string \<Rightarrow> js_value" where
  "member v k =
     (case v of
        JObject ps \<Rightarrow> (case map_of ps (utf16 k) of None \<Rightarrow> JUndefined | Some x \<Rightarrow> x)
      | _ \<Rightarrow> JUndefined)"

subsection \<open>Numbers\<close>

text \<open>
  \<open>a % b\<close> on integers: the sign follows the dividend, and a zero divisor gives
  \<open>NaN\<close>. \<open>Math.round\<close> leaves an integer and \<open>NaN\<close> as they are.
\<close>

definition js_rem :: "int \<Rightarrow> int \<Rightarrow> number" where
  "js_rem a b = (if b = 0 then NaN else Num (sgn a * (\<bar>a\<bar> mod \<bar>b\<bar>)))"

fun js_add :: "int \<Rightarrow> number \<Rightarrow> number" where
  "js_add a (Num b) = Num (a + b)"
| "js_add a NaN = NaN"

definition Math_round :: "number \<Rightarrow> number" where
  "Math_round x = x"

text \<open>
  The 32-bit operators: both convert their operands with \<open>ToInt32\<close> and give a signed
  32-bit result; the shift count is taken modulo 32.
\<close>

definition shift_left :: "int \<Rightarrow> nat \<Rightarrow> int" where
  "shift_left x n = sint (push_bit (n mod 32) (word_of_int x :: 32 word))"

definition bit_and :: "int \<Rightarrow> int \<Rightarrow> int" where
  "bit_and x y = sint ((word_of_int x :: 32 word) AND word_of_int y)"

text \<open>
  A number inside a template literal (decimal digits, a minus sign, \<open>NaN\<close>), for the
  magnitudes below \<open>10^21\<close> that occur here.
\<close>

fun digits :: "nat \<Rightarrow> js_string" where
  "digits n = (if n < 10 then [of_nat (48 + n)] else digits (n div 10) @ [of_nat (48 + n mod 10)])"

definition Number_toString :: "number \<Rightarrow> js_string" where
  "Number_toString x =
     (case x of
        NaN \<Rightarrow> utf16 ''NaN''
      | Num n \<Rightarrow> (if n < 0 then utf16 ''-'' @ digits (nat (- n)) else digits (nat n)))"

text \<open>\<open>s.padStart(n, c)\<close> for a pad \<open>c\<close> of one code unit.\<close>

definition padStart :: "js_string \<Rightarrow> nat \<Rightarrow> 16 word \<Rightarrow> js_string" where
  "padStart s n c = replicate (n - length s) c @ s"

section \<open>Plugins and their surroundings\<close>

text \<open>
  The argument bag of a call. Every parameter the declarations of this repository
  announce has type \<open>string\<close>, so a bag maps parameter names to strings; a name that is
  absent reads as \<open>undefined\<close> (\<open>None\<close>).
\<close>

type_synonym args = "(js_string \<times> js_string) list"

definition arg :: "args \<Rightarrow> string \<Rightarrow> js_string option" where
  "arg a k = map_of a (utf16 k)"

text \<open>
  On a value that is a string or \<open>undefined\<close>: truthiness, \<open>x || y\<close>, the value
  itself, and its text inside a template literal.
\<close>

definition present :: "js_string option \<Rightarrow> bool" where
  "present v = (case v of None \<Rightarrow> False | Some s \<Rightarrow> s \<noteq> [])"

definition or_else :: "js_string option \<Rightarrow> js_string option \<Rightarrow> js_string option" where
  "or_else x y = (if present x then x else y)"

definition to_value :: "js_string option \<Rightarrow> js_value" where
  "to_value v = (case v of None \<Rightarrow> JUndefined | Some s \<Rightarrow> JString s)"

definition template :: "js_string option \<Rightarrow> js_string" where
  "template v = (case v of None \<Rightarrow> utf16 ''undefined'' | Some s \<Rightarrow> s)"

text \<open>
  What a plugin's \<open>execute\<close> may depend on outside its arguments: the clock read by
  \<open>new Date()\<close> (full year, zero-based month, day of the month), the \<open>EMAIL\<close> entry of
  \<open>CONFIG\<close> (\<open>config.js\<close> is not part of the sources; \<open>None\<close> when the entry
  is missing, else its \<open>USER\<close> and \<open>PASSWORD\<close>), the two environment variables, and
  the mail transport: given the credentials of \<open>createTransport\<close> and the mail
  options, \<open>sendMail\<close> resolves (\<open>Inr\<close>) or rejects with an error carrying a
  message (\<open>Inl\<close>).
\<close>

record mailOptions =
  mail_from :: "js_string option"
  mail_to :: "js_string option"
  mail_subject :: "js_string option"
  mail_text :: "js_string option"

record world =
  getFullYear :: int
  getMonth :: nat
  getDate :: nat
  CONFIG_EMAIL :: "(js_string option \<times> js_string option) option"
  env_EMAIL_USER :: "js_string option"
  env_EMAIL_PASSWORD :: "js_string option"
  sendMail :: "js_string option \<Rightarrow> js_string option \<Rightarrow> mailOptions \<Rightarrow> js_string + unit"

text \<open>
  A value handed to \<open>registerTool\<close> is falsy, or it is an object. Of an object only
  two members matter: \<open>getDeclaration\<close> and \<open>execute\<close>, each \<open>None\<close> when
  \<open>typeof\<close> of the member is not \<open>'function'\<close>. \<open>getDeclaration()\<close> returns a
  value or throws; \<open>execute(args)\<close> resolves or rejects, depending on its arguments and
  on the world. A truthy primitive behaves as an object with neither member.
\<close>

record tool_object =
  getDeclaration :: "(js_value completion) option"
  execute :: "(args \<Rightarrow> world \<Rightarrow> js_value completion) option"

datatype tool_instance = Falsy | Instance tool_object

subsection \<open>The weather tool\<close>

definition WeatherTool_getDeclaration :: js_value where
  "WeatherTool_getDeclaration =
     JArray [JObject
       [(utf16 ''name'', JString (utf16 ''get_weather_on_date'')),
        (utf16 ''description'',
           JString (utf16 ''Get the weather forecast for a specific location and date'')),
        (utf16 ''parameters'', JObject
          [(utf16 ''type'', JString (utf16 ''object'')),
           (utf16 ''properties'', JObject
             [(utf16 ''location'', JObject
                [(utf16 ''type'', JString (utf16 ''string'')),
                 (utf16 ''description'',
                    JString (utf16 ''The location to get weather for (city name)''))]),
              (utf16 ''date'', JObject
                [(utf16 ''type'', JString (utf16 ''string'')),
                 (utf16 ''description'',
                    JString (utf16 (''The date to get weather for (YYYY-MM-DD format). ''
                      @ ''If not provided, the current date is used.'')))])]),
           (utf16 ''required'', JArray [JString (utf16 ''location'')])])]]"

definition getCurrentDate :: "world \<Rightarrow> js_string" where
  "getCurrentDate w =
     (let year = getFullYear w;
          month = padStart (digits (getMonth w + 1)) 2 0x30;
          day = padStart (digits (getDate w)) 2 0x30
      in Number_toString (Num year) @ utf16 ''-'' @ month @ utf16 ''-'' @ day)"

text \<open>The loop of \<open>hashString\<close> from index \<open>i\<close> on is a recursion on the rest of the string.\<close>

fun hashString_loop :: "js_string \<Rightarrow> int \<Rightarrow> int" where
  "hashString_loop [] hash = hash"
| "hashString_loop (c # str) hash =
     (let char = uint c;
          hash1 = (shift_left hash 5 - hash) + char;
          hash2 = bit_and hash1 hash1
      in hashString_loop str hash2)"

definition hashString :: "js_string \<Rightarrow> int" where
  "hashString str = \<bar>hashString_loop str 0\<bar>"

definition weatherConditions :: "js_string list" where
  "weatherConditions = map utf16
     [''sunny'', ''partly cloudy'', ''cloudy'',
      ''light rain'', ''heavy rain'', ''thunderstorm'',
      ''windy'', ''snow'', ''foggy'']"

record band =
  min_t :: int
  max_t :: int

definition temperatures :: "(js_string \<times> band) list" where
  "temperatures =
     [(utf16 ''sunny'', \<lparr>min_t = 20, max_t = 35\<rparr>),
      (utf16 ''partly cloudy'', \<lparr>min_t = 18, max_t = 30\<rparr>),
      (utf16 ''cloudy'', \<lparr>min_t = 15, max_t = 25\<rparr>),
      (utf16 ''light rain'', \<lparr>min_t = 12, max_t = 20\<rparr>),
      (utf16 ''heavy rain'', \<lparr>min_t = 10, max_t = 18\<rparr>),
      (utf16 ''thunderstorm'', \<lparr>min_t = 15, max_t = 25\<rparr>),
      (utf16 ''windy'', \<lparr>min_t = 8, max_t = 15\<rparr>),
      (utf16 ''snow'', \<lparr>min_t = - 5, max_t = 5\<rparr>),
      (utf16 ''foggy'', \<lparr>min_t = 5, max_t = 15\<rparr>)]"

text \<open>
  \<open>xs[i]\<close> is \<open>undefined\<close> unless \<open>i\<close> is an index of the array, and
  \<open>temperatures[condition]\<close> is \<open>undefined\<close> unless the condition is a key.
\<close>

fun Array_index :: "'a list \<Rightarrow> number \<Rightarrow> 'a option" where
  "Array_index xs (Num i) = (if 0 \<le> i \<and> i < int (length xs) then Some (xs ! nat i) else None)"
| "Array_index xs NaN = None"

text \<open>
  \<open>execute\<close> of the weather tool. Reading \<open>temp.min\<close> throws when \<open>temp\<close> is
  \<open>undefined\<close>; the \<open>catch\<close> of the source logs and throws the same value again.
  The two code units before the final \<open>C\<close> are those of the source file.
\<close>

definition WeatherTool_execute :: "args \<Rightarrow> world \<Rightarrow> js_value completion" where
  "WeatherTool_execute args w =
     (let location = arg args ''location'';
          date = arg args ''date'';
          forecastDate = or_else date (Some (getCurrentDate w));
          seed = hashString (template location @ template forecastDate);
          condition = Array_index weatherConditions (js_rem seed (int (length weatherConditions)));
          temp = (case condition of None \<Rightarrow> map_of temperatures (utf16 ''undefined'')
                  | Some c \<Rightarrow> map_of temperatures c)
      in case temp of
           None \<Rightarrow> Inl (cannot_read ''undefined'' ''min'')
         | Some t \<Rightarrow>
             (let currentTemp = js_add (min_t t) (js_rem seed (max_t t - min_t t))
              in Inr (JObject
                   [(utf16 ''location'', to_value location),
                    (utf16 ''date'', to_value forecastDate),
                    (utf16 ''condition'', to_value condition),
                    (utf16 ''temperature'', JNumber (Math_round currentTemp)),
                    (utf16 ''humidity'', JNumber (js_add 40 (js_rem seed 40))),
                    (utf16 ''windSpeed'', JNumber (js_add 5 (js_rem seed 25))),
                    (utf16 ''forecast'', JString
                       (utf16 ''The weather in '' @ template location @ utf16 '' on ''
                          @ template forecastDate @ utf16 '' will be '' @ template condition
                          @ utf16 '' with a temperature of ''
                          @ Number_toString (Math_round currentTemp)
                          @ [0xC2, 0xB0] @ utf16 ''C''))])))"

definition WeatherTool :: tool_instance where
  "WeatherTool =
     Instance \<lparr>getDeclaration = Some (Inr WeatherTool_getDeclaration),
               execute = Some WeatherTool_execute\<rparr>"

subsection \<open>The mail tool\<close>

definition EmailTool_getDeclaration :: js_value where
  "EmailTool_getDeclaration =
     JObject
       [(utf16 ''name'', JString (utf16 ''sendEmail'')),
        (utf16 ''description'', JString (utf16 ''Sends an email to a specified recipient.'')),
        (utf16 ''parameters'', JObject
          [(utf16 ''type'', JString (utf16 ''object'')),
           (utf16 ''properties'', JObject
             [(utf16 ''to'', JObject
                [(utf16 ''type'', JString (utf16 ''string'')),
                 (utf16 ''description'', JString (utf16 ''The email address of the recipient.''))]),
              (utf16 ''subject'', JObject
                [(utf16 ''type'', JString (utf16 ''string'')),
                 (utf16 ''description'', JString (utf16 ''The subject of the email.''))]),
              (utf16 ''body'', JObject
                [(utf16 ''type'', JString (utf16 ''string'')),
                 (utf16 ''description'', JString (utf16 ''The body content of the email.''))])]),
           (utf16 ''required'',
              JArray [JString (utf16 ''to''), JString (utf16 ''subject''),
                      JString (utf16 ''body'')])])]"

text \<open>
  \<open>execute\<close> of the mail tool. Reading \<open>CONFIG.EMAIL.USER\<close> throws when
  \<open>CONFIG.EMAIL\<close> is \<open>undefined\<close>.
\<close>

definition EmailTool_execute :: "args \<Rightarrow> world \<Rightarrow> js_value completion" where
  "EmailTool_execute args w =
     (let to = arg args ''to'';
          subject = arg args ''subject'';
          body = arg args ''body''
      in if \<not> present to \<or> \<not> present subject \<or> \<not> present body then
           Inl (JError (utf16 ''Missing required fields: to, subject, or body.''))
         else
           (case CONFIG_EMAIL w of
              None \<Rightarrow> Inl (cannot_read ''undefined'' ''USER'')
            | Some (USER, PASSWORD) \<Rightarrow>
                (let emailUser = or_else USER (env_EMAIL_USER w);
                     emailPassword = or_else PASSWORD (env_EMAIL_PASSWORD w)
                 in if \<not> present emailUser \<or> \<not> present emailPassword then
                      Inl (JError (utf16 (''Email credentials are not configured. ''
                        @ ''Please set EMAIL_USER and EMAIL_PASSWORD in CONFIG ''
                        @ ''or environment variables.'')))
                    else
                      (let mailOptions = \<lparr>mail_from = emailUser, mail_to = to,
                                            mail_subject = subject, mail_text = body\<rparr>
                       in case sendMail w emailUser emailPassword mailOptions of
                            Inr u \<Rightarrow> Inr (JString (utf16 ''Email sent successfully.''))
                          | Inl message \<Rightarrow>
                              Inl (JError (utf16 ''Failed to send email: '' @ message))))))"

definition EmailTool :: tool_instance where
  "EmailTool =
     Instance \<lparr>getDeclaration = Some (Inr EmailTool_getDeclaration),
               execute = Some EmailTool_execute\<rparr>"

section \<open>The tool manager\<close>

text \<open>
  \<open>this.tools\<close> is a JavaScript \<open>Map\<close>: keys in insertion order, \<open>get\<close> of a
  missing key is \<open>undefined\<close>, \<open>set\<close> of a present key replaces the value where
  it stands and \<open>set\<close> of a new key appends.
\<close>

type_synonym tools = "(js_string \<times> tool_instance) list"

definition Map_has :: "tools \<Rightarrow> js_string \<Rightarrow> bool" where
  "Map_has m k = (map_of m k \<noteq> None)"

definition Map_get :: "tools \<Rightarrow> js_string \<Rightarrow> tool_instance option" where
  "Map_get m k = map_of m k"

fun Map_set :: "tools \<Rightarrow> js_string \<Rightarrow> tool_instance \<Rightarrow> tools" where
  "Map_set [] k v = [(k, v)]"
| "Map_set ((k', v') # m) k v = (if k' = k then (k, v) # m else (k', v') # Map_set m k v)"

text \<open>
  \<open>registerTool\<close> throws or returns nothing, and may change \<open>this.tools\<close>: the
  model returns the completion together with the map after the call.
\<close>

definition registerTool :: "tools \<Rightarrow> js_string \<Rightarrow> tool_instance \<Rightarrow> unit completion \<times> tools" where
  "registerTool this_tools name toolInstance =
     (if Map_has this_tools name then
        (Inl (ApplicationError
               (utf16 ''Tool '' @ quote @ name @ quote @ utf16 '' is already registered.'')
               INVALID_STATE), this_tools)
      else if (case toolInstance of Falsy \<Rightarrow> True | Instance obj \<Rightarrow> getDeclaration obj = None) then
        (Inl (ApplicationError
               (utf16 ''Invalid tool instance for '' @ quote @ name @ quote
                  @ utf16 ''. Tool must have a '' @ quote @ utf16 ''getDeclaration'' @ quote
                  @ utf16 '' method.'')
               INVALID_PARAMETER), this_tools)
      else (Inr (), Map_set this_tools name toolInstance))"

text \<open>
  \<open>registerDefaultTools\<close>: three registrations in a row; a throw ends the sequence.
  \<open>GoogleSearchTool\<close> (\<open>google-search.js\<close>) is not part of the sources: the instance
  it constructs is a parameter.
\<close>

definition registerDefaultTools :: "tools \<Rightarrow> tool_instance \<Rightarrow> unit completion \<times> tools" where
  "registerDefaultTools this_tools GoogleSearchTool =
     (case registerTool this_tools (utf16 ''googleSearch'') GoogleSearchTool of
        (Inl e, tools1) \<Rightarrow> (Inl e, tools1)
      | (Inr u, tools1) \<Rightarrow>
          (case registerTool tools1 (utf16 ''weather'') WeatherTool of
             (Inl e, tools2) \<Rightarrow> (Inl e, tools2)
           | (Inr u, tools2) \<Rightarrow> registerTool tools2 (utf16 ''email'') EmailTool))"

text \<open>The constructor: an empty map, then the default tools; a throw leaves no manager.\<close>

definition constructor :: "tool_instance \<Rightarrow> tools completion" where
  "constructor GoogleSearchTool =
     (case registerDefaultTools [] GoogleSearchTool of
        (Inl e, this_tools) \<Rightarrow> Inl e
      | (Inr u, this_tools) \<Rightarrow> Inr this_tools)"

text \<open>
  Calling a member of a stored value: a \<open>TypeError\<close> is thrown when the member is not a
  function (its text, the engine's, differs for \<open>null\<close> and \<open>undefined\<close>; nothing
  reads it).
\<close>

definition call_getDeclaration :: "tool_instance \<Rightarrow> js_value completion" where
  "call_getDeclaration tool =
     (case tool of
        Falsy \<Rightarrow> Inl (not_a_function ''tool.getDeclaration'')
      | Instance obj \<Rightarrow>
          (case getDeclaration obj of
             None \<Rightarrow> Inl (not_a_function ''tool.getDeclaration'')
           | Some c \<Rightarrow> c))"

definition call_execute :: "tool_instance \<Rightarrow> args \<Rightarrow> world \<Rightarrow> js_value completion" where
  "call_execute tool a w =
     (case tool of
        Falsy \<Rightarrow> Inl (not_a_function ''tool.execute'')
      | Instance obj \<Rightarrow>
          (case execute obj of
             None \<Rightarrow> Inl (not_a_function ''tool.execute'')
           | Some f \<Rightarrow> f a w))"

text \<open>
  \<open>getToolDeclarations\<close>. The body of the \<open>try\<close> inside the callback pushes a pair
  or throws; the \<open>catch\<close> logs and goes on with the array as it was; \<open>forEach\<close>
  visits the entries in insertion order and would pass on a throw of the callback.
\<close>

type_synonym declarations = "(js_string \<times> js_value) list"

definition try_declaration :: "declarations \<Rightarrow> tool_instance \<Rightarrow> js_string \<Rightarrow> declarations completion" where
  "try_declaration declarations tool name =
     (case call_getDeclaration tool of
        Inl e \<Rightarrow> Inl e
      | Inr declaration \<Rightarrow>
          (if truthy declaration then Inr (declarations @ [(name, declaration)])
           else Inr declarations))"

definition callback :: "declarations \<Rightarrow> tool_instance \<Rightarrow> js_string \<Rightarrow> declarations completion" where
  "callback declarations tool name =
     (case try_declaration declarations tool name of
        Inl e \<Rightarrow> Inr declarations
      | Inr declarations1 \<Rightarrow> Inr declarations1)"

fun forEach :: "tools \<Rightarrow> declarations \<Rightarrow> declarations completion" where
  "forEach [] declarations = Inr declarations"
| "forEach ((name, tool) # rest) declarations =
     (case callback declarations tool name of
        Inl e \<Rightarrow> Inl e
      | Inr declarations1 \<Rightarrow> forEach rest declarations1)"

definition getToolDeclarations :: "tools \<Rightarrow> declarations completion" where
  "getToolDeclarations this_tools = forEach this_tools []"

text \<open>
  A call request and the response envelope. In \<open>response\<close> a field is \<open>None\<close> when
  the object has no such key.
\<close>

record functionCall =
  call_name :: js_string
  call_args :: args
  call_id :: js_string

record response =
  output_field :: "js_value option"
  error_field :: "js_value option"

record functionResponse =
  response :: response
  response_id :: js_string

record envelope =
  functionResponses :: "functionResponse list"

text \<open>The first step of \<open>handleToolCall\<close>: find the tool by name.\<close>

definition find_tool :: "tools \<Rightarrow> js_string \<Rightarrow> tool_instance option" where
  "find_tool this_tools name =
     (if name = utf16 ''get_weather_on_date'' then Map_get this_tools (utf16 ''weather'')
      else if name = utf16 ''sendEmail'' then Map_get this_tools (utf16 ''email'')
      else Map_get this_tools name)"

text \<open>\<open>!tool\<close>: nothing was found, or what was found is falsy.\<close>

definition not_tool :: "tool_instance option \<Rightarrow> bool" where
  "not_tool tool = (case tool of None \<Rightarrow> True | Some Falsy \<Rightarrow> True | Some (Instance obj) \<Rightarrow> False)"

text \<open>
  \<open>handleToolCall\<close>. The \<open>catch\<close> reads \<open>error.message\<close>, which itself throws
  when the value caught is \<open>undefined\<close> or \<open>null\<close>; that throw leaves the function.
\<close>

definition handleToolCall :: "tools \<Rightarrow> world \<Rightarrow> functionCall \<Rightarrow> envelope completion" where
  "handleToolCall this_tools w functionCall =
     (let name = call_name functionCall;
          args = call_args functionCall;
          id1 = call_id functionCall;
          tool = find_tool this_tools name
      in case tool of
           None \<Rightarrow>
             Inl (ApplicationError (utf16 ''Unknown tool: '' @ quote @ name @ quote @ utf16 ''.'')
                    INVALID_PARAMETER)
         | Some Falsy \<Rightarrow>
             Inl (ApplicationError (utf16 ''Unknown tool: '' @ quote @ name @ quote @ utf16 ''.'')
                    INVALID_PARAMETER)
         | Some (Instance obj) \<Rightarrow>
             (case call_execute (Instance obj) args w of
                Inr result \<Rightarrow>
                  Inr \<lparr>functionResponses =
                         [\<lparr>response = \<lparr>output_field = Some result, error_field = None\<rparr>,
                           response_id = id1\<rparr>]\<rparr>
              | Inl err \<Rightarrow>
                  (case read_message err of
                     Inl thrown \<Rightarrow> Inl thrown
                   | Inr message \<Rightarrow>
                       Inr \<lparr>functionResponses =
                              [\<lparr>response = \<lparr>output_field = None, error_field = Some message\<rparr>,
                                response_id = id1\<rparr>]\<rparr>)))"

section \<open>Vocabulary of the properties\<close>

text \<open>
  \<open>describe_ok\<close>: calling \<open>getDeclaration\<close> on the stored value returns a truthy
  declaration. Otherwise the call throws (the member may also be no function) or returns a
  falsy value, which is what the warning of the source calls an empty declaration; an empty
  array or object is truthy. \<open>declared\<close> is the pair an entry contributes, if any.
\<close>

definition describe_ok :: "tool_instance \<Rightarrow> bool" where
  "describe_ok tool = (case call_getDeclaration tool of Inl e \<Rightarrow> False | Inr d \<Rightarrow> truthy d)"

definition declared :: "js_string \<times> tool_instance \<Rightarrow> (js_string \<times> js_value) option" where
  "declared entry =
     (case call_getDeclaration (snd entry) of
        Inl e \<Rightarrow> None
      | Inr d \<Rightarrow> if truthy d then Some (fst entry, d) else None)"

text \<open>The condition and the temperature of a forecast that was returned.\<close>

definition condition_of :: "js_value completion \<Rightarrow> js_value" where
  "condition_of r = (case r of Inl e \<Rightarrow> JUndefined | Inr v \<Rightarrow> member v ''condition'')"

definition temperature_of :: "js_value completion \<Rightarrow> js_value" where
  "temperature_of r = (case r of Inl e \<Rightarrow> JUndefined | Inr v \<Rightarrow> member v ''temperature'')"

text \<open>
  Concrete inputs: a world (1 March 2024, no mail configuration), a plugin whose
  \<open>execute\<close> resolves with a given value, and one whose \<open>execute\<close> rejects with a
  given reason.
\<close>

definition sample_world :: world where
  "sample_world = \<lparr>getFullYear = 2024, getMonth = 2, getDate = 1, CONFIG_EMAIL = None,
     env_EMAIL_USER = None, env_EMAIL_PASSWORD = None, sendMail = (\<lambda>u p m. Inr ())\<rparr>"

definition resolves_with :: "js_value \<Rightarrow> tool_instance" where
  "resolves_with v =
     Instance \<lparr>getDeclaration = Some (Inr (JObject [])), execute = Some (\<lambda>a w. Inr v)\<rparr>"

definition rejects_with :: "js_value \<Rightarrow> tool_instance" where
  "rejects_with v =
     Instance \<lparr>getDeclaration = Some (Inr (JObject [])), execute = Some (\<lambda>a w. Inl v)\<rparr>"

section \<open>Strings and the map\<close>

lemma unat_code_unit: "unat (of_nat (of_char c) :: 16 word) = of_char c"
proof -
  have "(of_char c :: nat) < 256" by (rule nat_of_char_less_256)
  then have "(of_char c :: nat) < 65536" by linarith
  then show ?thesis by (simp add: unat_of_nat)
qed

lemma code_unit_inj: "((of_nat (of_char c) :: 16 word) = of_nat (of_char d)) = (c = d)"
proof
  assume "(of_nat (of_char c) :: 16 word) = of_nat (of_char d)"
  then have "unat (of_nat (of_char c) :: 16 word) = unat (of_nat (of_char d) :: 16 word)"
    by simp
  then have "(of_char c :: nat) = of_char d" by (simp only: unat_code_unit)
  then show "c = d" by simp
qed simp

text \<open>Two literals are the same JavaScript string only when they are the same text.\<close>

lemma utf16_eq_iff [simp]: "(utf16 a = utf16 b) = (a = b)"
proof (induction a arbitrary: b)
  case Nil
  show ?case by (auto simp: utf16_def)
next
  case (Cons c a)
  show ?case
  proof (cases b)
    case Nil
    then show ?thesis by (simp add: utf16_def)
  next
    case (Cons d b')
    with Cons.IH [of b'] show ?thesis by (simp add: utf16_def code_unit_inj)
  qed
qed

lemma Map_get_Map_set: "Map_get (Map_set m k v) k' = (if k' = k then Some v else Map_get m k')"
  by (induction m) (auto simp: Map_get_def)

lemma Map_has_Map_set: "Map_has (Map_set m k v) k' = (k' = k \<or> Map_has m k')"
  by (simp add: Map_has_def Map_get_Map_set [unfolded Map_get_def])

section \<open>Registration\<close>

text \<open>
  A throw of \<open>registerTool\<close> happens before the map is touched, whichever check throws.
\<close>

lemma registerTool_throw_unchanged:
  "fst (registerTool this_tools n toolInstance) = Inl e \<Longrightarrow>
   snd (registerTool this_tools n toolInstance) = this_tools"
  by (auto simp: registerTool_def split: if_splits)

lemma registerTool_success:
  "fst (registerTool this_tools n toolInstance) = Inr u \<Longrightarrow>
   Map_get (snd (registerTool this_tools n toolInstance)) n = Some toolInstance"
  by (auto simp: registerTool_def Map_get_Map_set split: if_splits)

text \<open>
  C3. When the name is already a key of the map, \<open>registerTool\<close> throws the
  \<open>ApplicationError\<close> with code \<open>INVALID_STATE\<close> (the conflict), and the map after
  the call is the map before it: the entry under the name is still the instance registered
  first, and no entry has come or gone.
\<close>

theorem registerTool_conflict:
  assumes "Map_has this_tools n"
  shows "registerTool this_tools n toolInstance =
           (Inl (ApplicationError
                   (utf16 ''Tool '' @ quote @ n @ quote @ utf16 '' is already registered.'')
                   INVALID_STATE), this_tools)"
  using assms by (simp add: registerTool_def)

theorem registerTool_conflict_witness:
  "Map_has (snd (registerTool [] (utf16 ''weather'') WeatherTool)) (utf16 ''weather'')
   \<and> fst (registerTool (snd (registerTool [] (utf16 ''weather'') WeatherTool))
             (utf16 ''weather'') EmailTool)
       = Inl (ApplicationError
               (utf16 ''Tool '' @ quote @ utf16 ''weather'' @ quote
                  @ utf16 '' is already registered.'')
               INVALID_STATE)
   \<and> snd (registerTool (snd (registerTool [] (utf16 ''weather'') WeatherTool))
             (utf16 ''weather'') EmailTool)
       = [(utf16 ''weather'', WeatherTool)]"
proof -
  have s: "snd (registerTool [] (utf16 ''weather'') WeatherTool) = [(utf16 ''weather'', WeatherTool)]"
    by (simp add: registerTool_def Map_has_def WeatherTool_def)
  have h: "Map_has [(utf16 ''weather'', WeatherTool)] (utf16 ''weather'')"
    by (simp add: Map_has_def)
  show ?thesis
    using h registerTool_conflict [OF h, of EmailTool] by (simp add: s)
qed

text \<open>
  C4, as stated, fails: \<open>registerTool\<close> looks at \<open>getDeclaration\<close> only. An object
  that has \<open>getDeclaration\<close> and no \<open>execute\<close> is registered.
\<close>

theorem registerTool_without_execute:
  "registerTool [] (utf16 ''t'')
       (Instance \<lparr>getDeclaration = Some (Inr (JObject [])), execute = None\<rparr>)
     = (Inr (),
        [(utf16 ''t'', Instance \<lparr>getDeclaration = Some (Inr (JObject [])), execute = None\<rparr>)])"
  by (simp add: registerTool_def Map_has_def)

text \<open>
  C4, amended. For a name that is not yet a key, \<open>registerTool\<close> throws the
  \<open>ApplicationError\<close> with code \<open>INVALID_PARAMETER\<close> (the invalid capability) and
  leaves the map as it was, for every value that is falsy or has no \<open>getDeclaration\<close>
  function. (For a name that is a key the conflict is thrown first.)
\<close>

theorem registerTool_invalid:
  assumes "\<not> Map_has this_tools n"
    and "toolInstance = Falsy \<or> (\<exists>obj. toolInstance = Instance obj \<and> getDeclaration obj = None)"
  shows "registerTool this_tools n toolInstance =
           (Inl (ApplicationError
                   (utf16 ''Invalid tool instance for '' @ quote @ n @ quote
                      @ utf16 ''. Tool must have a '' @ quote @ utf16 ''getDeclaration'' @ quote
                      @ utf16 '' method.'')
                   INVALID_PARAMETER), this_tools)"
  using assms by (auto simp: registerTool_def)

theorem registerTool_invalid_witness:
  "\<not> Map_has [] (utf16 ''search'')
   \<and> (Instance \<lparr>getDeclaration = None, execute = Some EmailTool_execute\<rparr> = Falsy
        \<or> (\<exists>obj. Instance \<lparr>getDeclaration = None, execute = Some EmailTool_execute\<rparr> = Instance obj
              \<and> getDeclaration obj = None))
   \<and> registerTool [] (utf16 ''search'')
         (Instance \<lparr>getDeclaration = None, execute = Some EmailTool_execute\<rparr>)
       = (Inl (ApplicationError
                 (utf16 ''Invalid tool instance for '' @ quote @ utf16 ''search'' @ quote
                    @ utf16 ''. Tool must have a '' @ quote @ utf16 ''getDeclaration'' @ quote
                    @ utf16 '' method.'')
                 INVALID_PARAMETER), [])"
proof -
  have h1: "\<not> Map_has [] (utf16 ''search'')"
    by (simp add: Map_has_def)
  have h2: "Instance \<lparr>getDeclaration = None, execute = Some EmailTool_execute\<rparr> = Falsy
        \<or> (\<exists>obj. Instance \<lparr>getDeclaration = None, execute = Some EmailTool_execute\<rparr> = Instance obj
              \<and> getDeclaration obj = None)"
    by simp
  show ?thesis
    using h1 h2 registerTool_invalid [OF h1 h2] by simp
qed

section \<open>Aggregating the declarations\<close>

lemma callback_declared:
  "callback ds tool n = Inr (case declared (n, tool) of None \<Rightarrow> ds | Some p \<Rightarrow> ds @ [p])"
  by (simp add: callback_def try_declaration_def declared_def split: sum.splits)

lemma forEach_declared: "forEach ts ds = Inr (ds @ List.map_filter declared ts)"
proof (induction ts arbitrary: ds)
  case Nil
  show ?case by (simp add: List.map_filter_simps)
next
  case (Cons entry ts)
  obtain n tool where e: "entry = (n, tool)" by (cases entry)
  show ?case
    by (simp add: e callback_declared Cons.IH List.map_filter_simps split: option.splits)
qed

lemma getToolDeclarations_declared:
  "getToolDeclarations ts = Inr (List.map_filter declared ts)"
  by (simp add: getToolDeclarations_def forEach_declared)

lemma declared_Some_iff: "(declared entry \<noteq> None) = describe_ok (snd entry)"
  by (simp add: declared_def describe_ok_def split: sum.splits)

lemma length_map_filter_declared:
  "length (List.map_filter declared ts) = length (filter (\<lambda>entry. describe_ok (snd entry)) ts)"
  by (induction ts) (auto simp: List.map_filter_simps declared_Some_iff [symmetric] split: option.splits)

lemma map_fst_map_filter_declared:
  "map fst (List.map_filter declared ts) = map fst (filter (\<lambda>entry. describe_ok (snd entry)) ts)"
proof (induction ts)
  case Nil
  show ?case by (simp add: List.map_filter_simps)
next
  case (Cons entry ts)
  show ?case
  proof (cases "declared entry")
    case None
    then have "\<not> describe_ok (snd entry)" using declared_Some_iff [of entry] by simp
    with None Cons show ?thesis by (simp add: List.map_filter_simps)
  next
    case (Some p)
    then have ok: "describe_ok (snd entry)" using declared_Some_iff [of entry] by simp
    from Some have "fst p = fst entry"
      by (auto simp: declared_def split: sum.splits if_splits)
    with Some ok Cons show ?thesis by (simp add: List.map_filter_simps)
  qed
qed

lemma describe_ok_WeatherTool: "describe_ok WeatherTool"
  by (simp add: describe_ok_def call_getDeclaration_def WeatherTool_def WeatherTool_getDeclaration_def)

lemma describe_ok_EmailTool: "describe_ok EmailTool"
  by (simp add: describe_ok_def call_getDeclaration_def EmailTool_def EmailTool_getDeclaration_def)

text \<open>
  C5, as stated, fails for a declaration that is empty and not falsy: an empty array is
  truthy, \<open>if (declaration)\<close> keeps it, and the map of two plugins gives two pairs.
\<close>

theorem getToolDeclarations_keeps_empty_array:
  "getToolDeclarations
      [(utf16 ''email'', EmailTool),
       (utf16 ''empty'', Instance \<lparr>getDeclaration = Some (Inr (JArray [])), execute = None\<rparr>)]
     = Inr [(utf16 ''email'', EmailTool_getDeclaration), (utf16 ''empty'', JArray [])]"
  by (simp add: getToolDeclarations_def callback_def try_declaration_def call_getDeclaration_def
        EmailTool_def EmailTool_getDeclaration_def)

text \<open>
  C5, amended. \<open>getToolDeclarations\<close> does not throw. When exactly one entry of the map
  has a \<open>getDeclaration\<close> that throws or returns a falsy value (\<open>undefined\<close>,
  \<open>null\<close>, \<open>false\<close>, \<open>0\<close>, \<open>NaN\<close> or the empty string), the call returns one
  pair fewer than the map has entries: the pairs of the other entries, in the order of the
  map, each with the declaration its plugin returned.
\<close>

theorem getToolDeclarations_skips_one:
  assumes "length (filter (\<lambda>entry. \<not> describe_ok (snd entry)) this_tools) = 1"
  shows "\<exists>declarations. getToolDeclarations this_tools = Inr declarations
           \<and> length declarations = length this_tools - 1
           \<and> map fst declarations = map fst (filter (\<lambda>entry. describe_ok (snd entry)) this_tools)
           \<and> (\<forall>p \<in> set declarations. \<exists>tool. (fst p, tool) \<in> set this_tools
                  \<and> call_getDeclaration tool = Inr (snd p) \<and> truthy (snd p))"
proof -
  let ?ds = "List.map_filter declared this_tools"
  have "length (filter (\<lambda>entry. describe_ok (snd entry)) this_tools)
          + length (filter (\<lambda>entry. \<not> describe_ok (snd entry)) this_tools) = length this_tools"
    by (rule sum_length_filter_compl)
  with assms have n: "length ?ds = length this_tools - 1"
    by (simp add: length_map_filter_declared)
  have m: "\<forall>p \<in> set ?ds. \<exists>tool. (fst p, tool) \<in> set this_tools
                  \<and> call_getDeclaration tool = Inr (snd p) \<and> truthy (snd p)"
  proof
    fix p assume "p \<in> set ?ds"
    then obtain n tool where mem: "(n, tool) \<in> set this_tools" and d: "declared (n, tool) = Some p"
      by (auto simp: List.map_filter_def)
    from d have "fst p = n \<and> call_getDeclaration tool = Inr (snd p) \<and> truthy (snd p)"
      by (auto simp: declared_def split: sum.splits if_splits)
    with mem show "\<exists>tool. (fst p, tool) \<in> set this_tools
                  \<and> call_getDeclaration tool = Inr (snd p) \<and> truthy (snd p)"
      by blast
  qed
  show ?thesis
    using n m by (simp add: getToolDeclarations_declared map_fst_map_filter_declared)
qed

theorem getToolDeclarations_skips_one_witness:
  "length (filter (\<lambda>entry. \<not> describe_ok (snd entry))
      [(utf16 ''weather'', WeatherTool),
       (utf16 ''broken'', Instance \<lparr>getDeclaration = Some (Inl (JError (utf16 ''no schema''))),
                                   execute = None\<rparr>),
       (utf16 ''email'', EmailTool)]) = 1
   \<and> getToolDeclarations
      [(utf16 ''weather'', WeatherTool),
       (utf16 ''broken'', Instance \<lparr>getDeclaration = Some (Inl (JError (utf16 ''no schema''))),
                                   execute = None\<rparr>),
       (utf16 ''email'', EmailTool)]
     = Inr [(utf16 ''weather'', WeatherTool_getDeclaration),
            (utf16 ''email'', EmailTool_getDeclaration)]"
proof -
  let ?ts = "[(utf16 ''weather'', WeatherTool),
       (utf16 ''broken'', Instance \<lparr>getDeclaration = Some (Inl (JError (utf16 ''no schema''))),
                                   execute = None\<rparr>),
       (utf16 ''email'', EmailTool)]"
  have b: "\<not> describe_ok (Instance \<lparr>getDeclaration = Some (Inl (JError (utf16 ''no schema''))),
                                   execute = None\<rparr>)"
    by (simp add: describe_ok_def call_getDeclaration_def)
  have h: "length (filter (\<lambda>entry. \<not> describe_ok (snd entry)) ?ts) = 1"
    by (simp add: describe_ok_WeatherTool describe_ok_EmailTool b)
  from getToolDeclarations_skips_one [OF h]
  obtain ds where ds: "getToolDeclarations ?ts = Inr ds" "length ds = length ?ts - 1"
    "map fst ds = map fst (filter (\<lambda>entry. describe_ok (snd entry)) ?ts)"
    "\<forall>p \<in> set ds. \<exists>tool. (fst p, tool) \<in> set ?ts
                  \<and> call_getDeclaration tool = Inr (snd p) \<and> truthy (snd p)"
    by blast
  from ds(2) obtain p q where pq: "ds = [p, q]"
    by (cases ds; cases "tl ds"; cases "tl (tl ds)") auto
  from ds(3) have f: "fst p = utf16 ''weather''" "fst q = utf16 ''email''"
    by (simp_all add: pq describe_ok_WeatherTool describe_ok_EmailTool b)
  from ds(4) have "snd p = WeatherTool_getDeclaration" "snd q = EmailTool_getDeclaration"
    by (auto simp: pq f call_getDeclaration_def WeatherTool_def EmailTool_def)
  with f have "p = (utf16 ''weather'', WeatherTool_getDeclaration)"
    "q = (utf16 ''email'', EmailTool_getDeclaration)"
    by (auto simp: prod_eq_iff)
  with h ds(1) pq show ?thesis by simp
qed

section \<open>The forecast\<close>

lemma js_rem_nonneg: "0 \<le> s \<Longrightarrow> 0 < m \<Longrightarrow> js_rem s m = Num (s mod m)"
  by (cases "s = 0") (simp_all add: js_rem_def)

lemma hashString_nonneg: "0 \<le> hashString str"
  by (simp add: hashString_def)

lemma length_weatherConditions: "length weatherConditions = 9"
  by (simp add: weatherConditions_def)

lemma band_of_condition:
  "c \<in> set weatherConditions \<Longrightarrow> \<exists>t. map_of temperatures c = Some t \<and> min_t t < max_t t"
  by (auto simp: weatherConditions_def temperatures_def)

lemma WeatherTool_execute_value:
  assumes "seed = hashString (template (arg a ''location'')
                    @ template (or_else (arg a ''date'') (Some (getCurrentDate w))))"
    and "c = weatherConditions ! nat (seed mod 9)"
  shows "\<exists>t. map_of temperatures c = Some t \<and> min_t t < max_t t \<and> c \<in> set weatherConditions
           \<and> WeatherTool_execute a w =
               Inr (JObject
                   [(utf16 ''location'', to_value (arg a ''location'')),
                    (utf16 ''date'', to_value (or_else (arg a ''date'') (Some (getCurrentDate w)))),
                    (utf16 ''condition'', JString c),
                    (utf16 ''temperature'', JNumber (Num (min_t t + seed mod (max_t t - min_t t)))),
                    (utf16 ''humidity'', JNumber (Num (40 + seed mod 40))),
                    (utf16 ''windSpeed'', JNumber (Num (5 + seed mod 25))),
                    (utf16 ''forecast'', JString
                       (utf16 ''The weather in '' @ template (arg a ''location'') @ utf16 '' on ''
                          @ template (or_else (arg a ''date'') (Some (getCurrentDate w)))
                          @ utf16 '' will be '' @ c
                          @ utf16 '' with a temperature of ''
                          @ Number_toString (Num (min_t t + seed mod (max_t t - min_t t)))
                          @ [0xC2, 0xB0] @ utf16 ''C''))])"
proof -
  have s0: "0 \<le> seed" using assms(1) by (simp add: hashString_nonneg)
  have k: "nat (seed mod 9) < length weatherConditions"
    using s0 by (simp add: length_weatherConditions nat_less_iff)
  then have cmem: "c \<in> set weatherConditions" using assms(2) by simp
  then obtain t where t: "map_of temperatures c = Some t" "min_t t < max_t t"
    using band_of_condition by blast
  have idx: "Array_index weatherConditions (js_rem seed (int (length weatherConditions))) = Some c"
    using s0 assms(2) by (simp add: js_rem_nonneg length_weatherConditions)
  have r: "js_rem seed (max_t t - min_t t) = Num (seed mod (max_t t - min_t t))"
    using s0 t(2) by (simp add: js_rem_nonneg)
  have "WeatherTool_execute a w =
               Inr (JObject
                   [(utf16 ''location'', to_value (arg a ''location'')),
                    (utf16 ''date'', to_value (or_else (arg a ''date'') (Some (getCurrentDate w)))),
                    (utf16 ''condition'', JString c),
                    (utf16 ''temperature'', JNumber (Num (min_t t + seed mod (max_t t - min_t t)))),
                    (utf16 ''humidity'', JNumber (Num (40 + seed mod 40))),
                    (utf16 ''windSpeed'', JNumber (Num (5 + seed mod 25))),
                    (utf16 ''forecast'', JString
                       (utf16 ''The weather in '' @ template (arg a ''location'') @ utf16 '' on ''
                          @ template (or_else (arg a ''date'') (Some (getCurrentDate w)))
                          @ utf16 '' will be '' @ c
                          @ utf16 '' with a temperature of ''
                          @ Number_toString (Num (min_t t + seed mod (max_t t - min_t t)))
                          @ [0xC2, 0xB0] @ utf16 ''C''))])"
    unfolding WeatherTool_execute_def Let_def assms(1) [symmetric] idx
    using s0 r t(1) by (simp add: js_rem_nonneg Math_round_def to_value_def template_def)
  with t cmem show ?thesis by blast
qed

text \<open>
  C9. \<open>execute\<close> of the weather tool returns for every argument bag and every clock,
  it never throws. The condition of the result is one of the nine of \<open>weatherConditions\<close>,
  the temperature lies in the band of that condition, the humidity between 40 and 79 and
  the wind speed between 5 and 29. (The seed is not negative, \<open>hashString_nonneg\<close>, and
  every divisor is positive, \<open>band_of_condition\<close>.)
\<close>

theorem WeatherTool_execute_total:
  "\<exists>obj c t temperature humidity windSpeed.
      WeatherTool_execute a w = Inr obj
    \<and> member obj ''condition'' = JString c \<and> c \<in> set weatherConditions
    \<and> map_of temperatures c = Some t
    \<and> member obj ''temperature'' = JNumber (Num temperature)
    \<and> min_t t \<le> temperature \<and> temperature \<le> max_t t
    \<and> member obj ''humidity'' = JNumber (Num humidity) \<and> 40 \<le> humidity \<and> humidity \<le> 79
    \<and> member obj ''windSpeed'' = JNumber (Num windSpeed) \<and> 5 \<le> windSpeed \<and> windSpeed \<le> 29
    \<and> 0 < max_t t - min_t t \<and> 0 \<le> hashString str"
proof -
  define seed where "seed = hashString (template (arg a ''location'')
                    @ template (or_else (arg a ''date'') (Some (getCurrentDate w))))"
  define c where "c = weatherConditions ! nat (seed mod 9)"
  from WeatherTool_execute_value [OF seed_def c_def]
  obtain t where t: "map_of temperatures c = Some t" "min_t t < max_t t" "c \<in> set weatherConditions"
    and v: "WeatherTool_execute a w =
               Inr (JObject
                   [(utf16 ''location'', to_value (arg a ''location'')),
                    (utf16 ''date'', to_value (or_else (arg a ''date'') (Some (getCurrentDate w)))),
                    (utf16 ''condition'', JString c),
                    (utf16 ''temperature'', JNumber (Num (min_t t + seed mod (max_t t - min_t t)))),
                    (utf16 ''humidity'', JNumber (Num (40 + seed mod 40))),
                    (utf16 ''windSpeed'', JNumber (Num (5 + seed mod 25))),
                    (utf16 ''forecast'', JString
                       (utf16 ''The weather in '' @ template (arg a ''location'') @ utf16 '' on ''
                          @ template (or_else (arg a ''date'') (Some (getCurrentDate w)))
                          @ utf16 '' will be '' @ c
                          @ utf16 '' with a temperature of ''
                          @ Number_toString (Num (min_t t + seed mod (max_t t - min_t t)))
                          @ [0xC2, 0xB0] @ utf16 ''C''))])" (is "_ = Inr ?obj")
    by blast
  have d: "0 < max_t t - min_t t" using t(2) by simp
  have b1: "0 \<le> seed mod (max_t t - min_t t)" "seed mod (max_t t - min_t t) < max_t t - min_t t"
    using d by simp_all
  have b2: "0 \<le> seed mod 40" "seed mod 40 < 40" by simp_all
  have b3: "0 \<le> seed mod 25" "seed mod 25 < 25" by simp_all
  have m1: "member ?obj ''condition'' = JString c" by (simp add: member_def)
  have m2: "member ?obj ''temperature'' = JNumber (Num (min_t t + seed mod (max_t t - min_t t)))"
    by (simp add: member_def)
  have m3: "member ?obj ''humidity'' = JNumber (Num (40 + seed mod 40))" by (simp add: member_def)
  have m4: "member ?obj ''windSpeed'' = JNumber (Num (5 + seed mod 25))" by (simp add: member_def)
  have "min_t t \<le> min_t t + seed mod (max_t t - min_t t)
      \<and> min_t t + seed mod (max_t t - min_t t) \<le> max_t t
      \<and> 40 \<le> 40 + seed mod 40 \<and> 40 + seed mod 40 \<le> 79
      \<and> 5 \<le> 5 + seed mod 25 \<and> 5 + seed mod 25 \<le> 29"
    using b1 b2 b3 by linarith
  with v t d m1 m2 m3 m4 hashString_nonneg [of str] show ?thesis by blast
qed

lemma today_1: "getCurrentDate sample_world = utf16 ''2024-03-01''"
  by code_simp

lemma today_2: "getCurrentDate (sample_world\<lparr>getDate := 2\<rparr>) = utf16 ''2024-03-02''"
  by code_simp

lemma seed_1: "hashString (utf16 ''Manila'' @ utf16 ''2024-03-01'') = 1259919906"
  by code_simp

lemma seed_2: "hashString (utf16 ''Manila'' @ utf16 ''2024-03-02'') = 1259919907"
  by code_simp

lemma forecast_empty_date:
  assumes "getCurrentDate w = today" and "hashString (utf16 ''Manila'' @ today) = seed"
    and "weatherConditions ! nat (seed mod 9) = c" and "map_of temperatures c = Some t"
  shows "condition_of (WeatherTool_execute
            [(utf16 ''location'', utf16 ''Manila''), (utf16 ''date'', [])] w) = JString c
       \<and> temperature_of (WeatherTool_execute
            [(utf16 ''location'', utf16 ''Manila''), (utf16 ''date'', [])] w)
          = JNumber (Num (min_t t + seed mod (max_t t - min_t t)))"
proof -
  let ?a = "[(utf16 ''location'', utf16 ''Manila''), (utf16 ''date'', [])]"
  have l: "template (arg ?a ''location'') = utf16 ''Manila''"
    by (simp add: arg_def template_def)
  have d: "template (or_else (arg ?a ''date'') (Some (getCurrentDate w))) = today"
    using assms(1) by (simp add: arg_def or_else_def present_def template_def)
  have s: "seed = hashString (template (arg ?a ''location'')
                    @ template (or_else (arg ?a ''date'') (Some (getCurrentDate w))))"
    using assms(2) by (simp only: l d)
  from WeatherTool_execute_value [OF s assms(3) [symmetric]] assms(4)
  show ?thesis
    by (auto simp: condition_of_def temperature_of_def member_def)
qed

text \<open>
  C7, as stated, fails for a date that is supplied as the empty string: \<open>date || ...\<close>
  takes the empty string as no date, and the forecast follows the clock. The same
  arguments give \<open>windy\<close> at 8 degrees on 1 March 2024 and \<open>snow\<close> at 2 degrees on
  the day after.
\<close>

theorem WeatherTool_empty_date_follows_clock:
  "condition_of (WeatherTool_execute [(utf16 ''location'', utf16 ''Manila''), (utf16 ''date'', [])]
       sample_world) = JString (utf16 ''windy'')
   \<and> temperature_of (WeatherTool_execute [(utf16 ''location'', utf16 ''Manila''), (utf16 ''date'', [])]
       sample_world) = JNumber (Num 8)
   \<and> condition_of (WeatherTool_execute [(utf16 ''location'', utf16 ''Manila''), (utf16 ''date'', [])]
       (sample_world\<lparr>getDate := 2\<rparr>)) = JString (utf16 ''snow'')
   \<and> temperature_of (WeatherTool_execute [(utf16 ''location'', utf16 ''Manila''), (utf16 ''date'', [])]
       (sample_world\<lparr>getDate := 2\<rparr>)) = JNumber (Num 2)"
proof -
  have c1: "weatherConditions ! nat (1259919906 mod 9) = utf16 ''windy''"
    by (simp add: weatherConditions_def)
  have c2: "weatherConditions ! nat (1259919907 mod 9) = utf16 ''snow''"
    by (simp add: weatherConditions_def)
  have t1: "map_of temperatures (utf16 ''windy'') = Some \<lparr>min_t = 8, max_t = 15\<rparr>"
    by (simp add: temperatures_def)
  have t2: "map_of temperatures (utf16 ''snow'') = Some \<lparr>min_t = - 5, max_t = 5\<rparr>"
    by (simp add: temperatures_def)
  show ?thesis
    using forecast_empty_date [OF today_1 seed_1 c1 t1] forecast_empty_date [OF today_2 seed_2 c2 t2]
    by simp
qed

text \<open>
  C7, amended. For a date that is supplied and is not the empty string, the whole result
  of \<open>execute\<close> is the same under every clock, and its condition is the entry of
  \<open>weatherConditions\<close> selected by the hash of the location followed by the date.
\<close>

theorem WeatherTool_deterministic:
  assumes "arg a ''date'' = Some d" and "d \<noteq> []"
  shows "WeatherTool_execute a w1 = WeatherTool_execute a w2
       \<and> condition_of (WeatherTool_execute a w1)
           = JString (weatherConditions ! nat (hashString (template (arg a ''location'') @ d) mod 9))"
proof -
  have o: "\<And>w. or_else (arg a ''date'') (Some (getCurrentDate w)) = Some d"
    using assms by (simp add: or_else_def present_def)
  have "WeatherTool_execute a w1 = WeatherTool_execute a w2"
    by (simp add: WeatherTool_execute_def o)
  moreover have "condition_of (WeatherTool_execute a w1)
           = JString (weatherConditions ! nat (hashString (template (arg a ''location'') @ d) mod 9))"
    using WeatherTool_execute_value [of _ a w1, OF refl refl]
    by (auto simp: o template_def condition_of_def member_def)
  ultimately show ?thesis by simp
qed


theorem WeatherTool_deterministic_witness:
  "arg [(utf16 ''location'', utf16 ''Manila''), (utf16 ''date'', utf16 ''2024-03-01'')] ''date''
      = Some (utf16 ''2024-03-01'')
   \<and> utf16 ''2024-03-01'' \<noteq> []
   \<and> WeatherTool_execute [(utf16 ''location'', utf16 ''Manila''), (utf16 ''date'', utf16 ''2024-03-01'')]
         sample_world
       = WeatherTool_execute [(utf16 ''location'', utf16 ''Manila''), (utf16 ''date'', utf16 ''2024-03-01'')]
         (sample_world\<lparr>getFullYear := 2031, getMonth := 11, getDate := 24\<rparr>)"
proof -
  have h1: "arg [(utf16 ''location'', utf16 ''Manila''), (utf16 ''date'', utf16 ''2024-03-01'')] ''date''
      = Some (utf16 ''2024-03-01'')"
    by (simp add: arg_def)
  have h2: "utf16 ''2024-03-01'' \<noteq> []"
    by (simp add: utf16_def)
  show ?thesis
    using h1 h2 WeatherTool_deterministic [OF h1 h2] by blast
qed

section \<open>Dispatch\<close>

lemma constructor_tools:
  assumes "constructor g = Inr t"
  shows "t = [(utf16 ''googleSearch'', g), (utf16 ''weather'', WeatherTool), (utf16 ''email'', EmailTool)]"
  using assms
  by (auto simp: constructor_def registerDefaultTools_def registerTool_def Map_has_def
        WeatherTool_def EmailTool_def split: if_splits prod.splits sum.splits)

lemma handleToolCall_unknown:
  assumes "not_tool (find_tool t (call_name fc))"
  shows "handleToolCall t w fc =
           Inl (ApplicationError (utf16 ''Unknown tool: '' @ quote @ call_name fc @ quote @ utf16 ''.'')
                  INVALID_PARAMETER)"
  using assms
  by (auto simp: handleToolCall_def Let_def not_tool_def split: option.splits tool_instance.splits)

lemma handleToolCall_unregistered:
  assumes "call_name fc \<noteq> utf16 ''get_weather_on_date''"
    and "call_name fc \<noteq> utf16 ''sendEmail''"
    and "\<not> Map_has t (call_name fc)"
  shows "handleToolCall t w fc =
           Inl (ApplicationError (utf16 ''Unknown tool: '' @ quote @ call_name fc @ quote @ utf16 ''.'')
                  INVALID_PARAMETER)"
proof -
  from assms have "find_tool t (call_name fc) = None"
    by (simp add: find_tool_def Map_get_def Map_has_def)
  then show ?thesis
    by (simp add: handleToolCall_unknown not_tool_def)
qed

lemma handleToolCall_output:
  assumes "find_tool t (call_name fc) = Some (Instance obj)"
    and "call_execute (Instance obj) (call_args fc) w = Inr result"
  shows "handleToolCall t w fc =
           Inr \<lparr>functionResponses =
                  [\<lparr>response = \<lparr>output_field = Some result, error_field = None\<rparr>,
                    response_id = call_id fc\<rparr>]\<rparr>"
  using assms by (simp add: handleToolCall_def Let_def)

lemma handleToolCall_error:
  assumes "find_tool t (call_name fc) = Some (Instance obj)"
    and "call_execute (Instance obj) (call_args fc) w = Inl err"
    and "read_message err = Inr message"
  shows "handleToolCall t w fc =
           Inr \<lparr>functionResponses =
                  [\<lparr>response = \<lparr>output_field = None, error_field = Some message\<rparr>,
                    response_id = call_id fc\<rparr>]\<rparr>"
  using assms by (simp add: handleToolCall_def Let_def)

lemma handleToolCall_rethrow:
  assumes "find_tool t (call_name fc) = Some (Instance obj)"
    and "call_execute (Instance obj) (call_args fc) w = Inl err"
    and "read_message err = Inl thrown"
  shows "handleToolCall t w fc = Inl thrown"
  using assms by (simp add: handleToolCall_def Let_def)

lemma read_message_throws: "(\<exists>thrown. read_message err = Inl thrown) = (err = JUndefined \<or> err = JNull)"
  by (cases err) auto

text \<open>
  The whole of \<open>handleToolCall\<close> in terms of the key under which the tool is read.
\<close>

lemma handleToolCall_by_key:
  assumes "(call_name fc = utf16 ''get_weather_on_date'' \<and> k = utf16 ''weather'')
         \<or> (call_name fc = utf16 ''sendEmail'' \<and> k = utf16 ''email'')
         \<or> (call_name fc \<noteq> utf16 ''get_weather_on_date'' \<and> call_name fc \<noteq> utf16 ''sendEmail''
              \<and> k = call_name fc)"
  shows "handleToolCall t w fc =
     (case Map_get t k of
        None \<Rightarrow>
          Inl (ApplicationError (utf16 ''Unknown tool: '' @ quote @ call_name fc @ quote @ utf16 ''.'')
                 INVALID_PARAMETER)
      | Some Falsy \<Rightarrow>
          Inl (ApplicationError (utf16 ''Unknown tool: '' @ quote @ call_name fc @ quote @ utf16 ''.'')
                 INVALID_PARAMETER)
      | Some (Instance obj) \<Rightarrow>
          (case call_execute (Instance obj) (call_args fc) w of
             Inr result \<Rightarrow>
               Inr \<lparr>functionResponses =
                      [\<lparr>response = \<lparr>output_field = Some result, error_field = None\<rparr>,
                        response_id = call_id fc\<rparr>]\<rparr>
           | Inl err \<Rightarrow>
               (case read_message err of
                  Inl thrown \<Rightarrow> Inl thrown
                | Inr message \<Rightarrow>
                    Inr \<lparr>functionResponses =
                           [\<lparr>response = \<lparr>output_field = None, error_field = Some message\<rparr>,
                             response_id = call_id fc\<rparr>]\<rparr>)))"
proof -
  from assms have "find_tool t (call_name fc) = Map_get t k"
    by (auto simp: find_tool_def)
  then show ?thesis
    by (simp add: handleToolCall_def Let_def)
qed

text \<open>
  C8. \<open>handleToolCall\<close> reads the tool of a call named \<open>get_weather_on_date\<close> under
  the key \<open>weather\<close>, that of a call named \<open>sendEmail\<close> under the key \<open>email\<close>,
  and that of any other call under the name itself: the call ends with the unknown-tool
  error when that key holds nothing, and otherwise with the outcome of \<open>execute\<close> of
  the plugin stored there. In the map the constructor builds, the keys \<open>weather\<close> and
  \<open>email\<close> hold the weather tool and the mail tool.
\<close>

theorem alias_resolution:
  assumes "(call_name fc = utf16 ''get_weather_on_date'' \<and> k = utf16 ''weather'')
         \<or> (call_name fc = utf16 ''sendEmail'' \<and> k = utf16 ''email'')
         \<or> (call_name fc \<noteq> utf16 ''get_weather_on_date'' \<and> call_name fc \<noteq> utf16 ''sendEmail''
              \<and> k = call_name fc)"
  shows "handleToolCall t w fc =
     (case Map_get t k of
        None \<Rightarrow>
          Inl (ApplicationError (utf16 ''Unknown tool: '' @ quote @ call_name fc @ quote @ utf16 ''.'')
                 INVALID_PARAMETER)
      | Some Falsy \<Rightarrow>
          Inl (ApplicationError (utf16 ''Unknown tool: '' @ quote @ call_name fc @ quote @ utf16 ''.'')
                 INVALID_PARAMETER)
      | Some (Instance obj) \<Rightarrow>
          (case call_execute (Instance obj) (call_args fc) w of
             Inr result \<Rightarrow>
               Inr \<lparr>functionResponses =
                      [\<lparr>response = \<lparr>output_field = Some result, error_field = None\<rparr>,
                        response_id = call_id fc\<rparr>]\<rparr>
           | Inl err \<Rightarrow>
               (case read_message err of
                  Inl thrown \<Rightarrow> Inl thrown
                | Inr message \<Rightarrow>
                    Inr \<lparr>functionResponses =
                           [\<lparr>response = \<lparr>output_field = None, error_field = Some message\<rparr>,
                             response_id = call_id fc\<rparr>]\<rparr>)))
     \<and> (constructor g = Inr t \<longrightarrow>
          Map_get t (utf16 ''weather'') = Some WeatherTool
        \<and> Map_get t (utf16 ''email'') = Some EmailTool)"
proof -
  have "constructor g = Inr t \<Longrightarrow>
        Map_get t (utf16 ''weather'') = Some WeatherTool \<and> Map_get t (utf16 ''email'') = Some EmailTool"
    by (drule constructor_tools) (simp add: Map_get_def)
  with handleToolCall_by_key [OF assms, of t w] show ?thesis by blast
qed

theorem alias_resolution_witness:
  "handleToolCall [(utf16 ''weather'', resolves_with (JString (utf16 ''rain''))),
                   (utf16 ''email'', resolves_with (JString (utf16 ''sent''))),
                   (utf16 ''echo'', resolves_with (JString (utf16 ''done'')))] sample_world
      \<lparr>call_name = utf16 ''get_weather_on_date'', call_args = [], call_id = utf16 ''a''\<rparr>
     = Inr \<lparr>functionResponses =
              [\<lparr>response = \<lparr>output_field = Some (JString (utf16 ''rain'')), error_field = None\<rparr>,
                response_id = utf16 ''a''\<rparr>]\<rparr>
   \<and> handleToolCall [(utf16 ''weather'', resolves_with (JString (utf16 ''rain''))),
                   (utf16 ''email'', resolves_with (JString (utf16 ''sent''))),
                   (utf16 ''echo'', resolves_with (JString (utf16 ''done'')))] sample_world
      \<lparr>call_name = utf16 ''sendEmail'', call_args = [], call_id = utf16 ''b''\<rparr>
     = Inr \<lparr>functionResponses =
              [\<lparr>response = \<lparr>output_field = Some (JString (utf16 ''sent'')), error_field = None\<rparr>,
                response_id = utf16 ''b''\<rparr>]\<rparr>
   \<and> handleToolCall [(utf16 ''weather'', resolves_with (JString (utf16 ''rain''))),
                   (utf16 ''email'', resolves_with (JString (utf16 ''sent''))),
                   (utf16 ''echo'', resolves_with (JString (utf16 ''done'')))] sample_world
      \<lparr>call_name = utf16 ''echo'', call_args = [], call_id = utf16 ''c''\<rparr>
     = Inr \<lparr>functionResponses =
              [\<lparr>response = \<lparr>output_field = Some (JString (utf16 ''done'')), error_field = None\<rparr>,
                response_id = utf16 ''c''\<rparr>]\<rparr>
   \<and> constructor (resolves_with JNull)
       = Inr [(utf16 ''googleSearch'', resolves_with JNull), (utf16 ''weather'', WeatherTool),
              (utf16 ''email'', EmailTool)]
   \<and> Map_get [(utf16 ''googleSearch'', resolves_with JNull), (utf16 ''weather'', WeatherTool),
              (utf16 ''email'', EmailTool)] (utf16 ''weather'') = Some WeatherTool
   \<and> Map_get [(utf16 ''googleSearch'', resolves_with JNull), (utf16 ''weather'', WeatherTool),
              (utf16 ''email'', EmailTool)] (utf16 ''email'') = Some EmailTool"
proof -
  let ?t = "[(utf16 ''weather'', resolves_with (JString (utf16 ''rain''))),
                   (utf16 ''email'', resolves_with (JString (utf16 ''sent''))),
                   (utf16 ''echo'', resolves_with (JString (utf16 ''done'')))]"
  let ?a = "\<lparr>call_name = utf16 ''get_weather_on_date'', call_args = [], call_id = utf16 ''a''\<rparr>"
  let ?b = "\<lparr>call_name = utf16 ''sendEmail'', call_args = [], call_id = utf16 ''b''\<rparr>"
  let ?c = "\<lparr>call_name = utf16 ''echo'', call_args = [], call_id = utf16 ''c''\<rparr>"
  let ?d = "[(utf16 ''googleSearch'', resolves_with JNull), (utf16 ''weather'', WeatherTool),
              (utf16 ''email'', EmailTool)]"
  have ha: "(call_name ?a = utf16 ''get_weather_on_date'' \<and> utf16 ''weather'' = utf16 ''weather'')
         \<or> (call_name ?a = utf16 ''sendEmail'' \<and> utf16 ''weather'' = utf16 ''email'')
         \<or> (call_name ?a \<noteq> utf16 ''get_weather_on_date'' \<and> call_name ?a \<noteq> utf16 ''sendEmail''
              \<and> utf16 ''weather'' = call_name ?a)"
    by simp
  have hb: "(call_name ?b = utf16 ''get_weather_on_date'' \<and> utf16 ''email'' = utf16 ''weather'')
         \<or> (call_name ?b = utf16 ''sendEmail'' \<and> utf16 ''email'' = utf16 ''email'')
         \<or> (call_name ?b \<noteq> utf16 ''get_weather_on_date'' \<and> call_name ?b \<noteq> utf16 ''sendEmail''
              \<and> utf16 ''email'' = call_name ?b)"
    by simp
  have hc: "(call_name ?c = utf16 ''get_weather_on_date'' \<and> utf16 ''echo'' = utf16 ''weather'')
         \<or> (call_name ?c = utf16 ''sendEmail'' \<and> utf16 ''echo'' = utf16 ''email'')
         \<or> (call_name ?c \<noteq> utf16 ''get_weather_on_date'' \<and> call_name ?c \<noteq> utf16 ''sendEmail''
              \<and> utf16 ''echo'' = call_name ?c)"
    by simp
  have hd: "constructor (resolves_with JNull) = Inr ?d"
    by (simp add: constructor_def registerDefaultTools_def registerTool_def Map_has_def
          resolves_with_def WeatherTool_def EmailTool_def)
  have a: "handleToolCall ?t sample_world ?a
     = Inr \<lparr>functionResponses =
              [\<lparr>response = \<lparr>output_field = Some (JString (utf16 ''rain'')), error_field = None\<rparr>,
                response_id = utf16 ''a''\<rparr>]\<rparr>"
    using alias_resolution [OF ha, of ?t sample_world]
    by (simp add: Map_get_def resolves_with_def call_execute_def)
  have b: "handleToolCall ?t sample_world ?b
     = Inr \<lparr>functionResponses =
              [\<lparr>response = \<lparr>output_field = Some (JString (utf16 ''sent'')), error_field = None\<rparr>,
                response_id = utf16 ''b''\<rparr>]\<rparr>"
    using alias_resolution [OF hb, of ?t sample_world]
    by (simp add: Map_get_def resolves_with_def call_execute_def)
  have c: "handleToolCall ?t sample_world ?c
     = Inr \<lparr>functionResponses =
              [\<lparr>response = \<lparr>output_field = Some (JString (utf16 ''done'')), error_field = None\<rparr>,
                response_id = utf16 ''c''\<rparr>]\<rparr>"
    using alias_resolution [OF hc, of ?t sample_world]
    by (simp add: Map_get_def resolves_with_def call_execute_def)
  have d: "Map_get ?d (utf16 ''weather'') = Some WeatherTool
         \<and> Map_get ?d (utf16 ''email'') = Some EmailTool"
    using hd alias_resolution [OF ha, of ?d sample_world "resolves_with JNull"] by blast
  from a b c d hd show ?thesis by blast
qed

text \<open>
  C10. For a call named \<open>get_weather_on_date\<close> (\<open>sendEmail\<close>), whatever the map
  holds, also under that very name: \<open>handleToolCall\<close> throws the unknown-tool error when
  the key \<open>weather\<close> (\<open>email\<close>) holds no tool, and otherwise wraps what \<open>execute\<close>
  of the plugin under \<open>weather\<close> (\<open>email\<close>) gives. And no call at all is affected by
  what the map holds under the keys \<open>get_weather_on_date\<close> and \<open>sendEmail\<close>: a
  plugin registered there is out of reach.
\<close>

theorem alias_precedence:
  assumes "(call_name fc = utf16 ''get_weather_on_date'' \<and> k = utf16 ''weather'')
         \<or> (call_name fc = utf16 ''sendEmail'' \<and> k = utf16 ''email'')"
  shows "(not_tool (Map_get t k) \<longrightarrow>
            handleToolCall t w fc =
              Inl (ApplicationError
                     (utf16 ''Unknown tool: '' @ quote @ call_name fc @ quote @ utf16 ''.'')
                     INVALID_PARAMETER))
       \<and> (\<forall>obj result. Map_get t k = Some (Instance obj)
              \<and> call_execute (Instance obj) (call_args fc) w = Inr result \<longrightarrow>
            handleToolCall t w fc =
              Inr \<lparr>functionResponses =
                     [\<lparr>response = \<lparr>output_field = Some result, error_field = None\<rparr>,
                       response_id = call_id fc\<rparr>]\<rparr>)
       \<and> (\<forall>obj err message. Map_get t k = Some (Instance obj)
              \<and> call_execute (Instance obj) (call_args fc) w = Inl err
              \<and> read_message err = Inr message \<longrightarrow>
            handleToolCall t w fc =
              Inr \<lparr>functionResponses =
                     [\<lparr>response = \<lparr>output_field = None, error_field = Some message\<rparr>,
                       response_id = call_id fc\<rparr>]\<rparr>)
       \<and> (\<forall>t' fc'. (\<forall>k'. k' \<noteq> utf16 ''get_weather_on_date'' \<and> k' \<noteq> utf16 ''sendEmail''
                        \<longrightarrow> Map_get t' k' = Map_get t k') \<longrightarrow>
            handleToolCall t' w fc' = handleToolCall t w fc')"
proof (intro conjI allI impI)
  have key: "(call_name fc = utf16 ''get_weather_on_date'' \<and> k = utf16 ''weather'')
         \<or> (call_name fc = utf16 ''sendEmail'' \<and> k = utf16 ''email'')
         \<or> (call_name fc \<noteq> utf16 ''get_weather_on_date'' \<and> call_name fc \<noteq> utf16 ''sendEmail''
              \<and> k = call_name fc)"
    using assms by blast
  note eq = handleToolCall_by_key [OF key, of t w]
  {
    assume "not_tool (Map_get t k)"
    with eq show "handleToolCall t w fc =
              Inl (ApplicationError
                     (utf16 ''Unknown tool: '' @ quote @ call_name fc @ quote @ utf16 ''.'')
                     INVALID_PARAMETER)"
      by (auto simp: not_tool_def split: option.splits tool_instance.splits)
  }
  {
    fix obj result
    assume "Map_get t k = Some (Instance obj)
              \<and> call_execute (Instance obj) (call_args fc) w = Inr result"
    with eq show "handleToolCall t w fc =
              Inr \<lparr>functionResponses =
                     [\<lparr>response = \<lparr>output_field = Some result, error_field = None\<rparr>,
                       response_id = call_id fc\<rparr>]\<rparr>"
      by simp
  }
  {
    fix obj err message
    assume "Map_get t k = Some (Instance obj)
              \<and> call_execute (Instance obj) (call_args fc) w = Inl err
              \<and> read_message err = Inr message"
    with eq show "handleToolCall t w fc =
              Inr \<lparr>functionResponses =
                     [\<lparr>response = \<lparr>output_field = None, error_field = Some message\<rparr>,
                       response_id = call_id fc\<rparr>]\<rparr>"
      by simp
  }
  {
    fix t' :: tools and fc' :: functionCall
    assume same: "\<forall>k'. k' \<noteq> utf16 ''get_weather_on_date'' \<and> k' \<noteq> utf16 ''sendEmail''
                        \<longrightarrow> Map_get t' k' = Map_get t k'"
    obtain k' where k': "(call_name fc' = utf16 ''get_weather_on_date'' \<and> k' = utf16 ''weather'')
         \<or> (call_name fc' = utf16 ''sendEmail'' \<and> k' = utf16 ''email'')
         \<or> (call_name fc' \<noteq> utf16 ''get_weather_on_date'' \<and> call_name fc' \<noteq> utf16 ''sendEmail''
              \<and> k' = call_name fc')"
      by blast
    then have "k' \<noteq> utf16 ''get_weather_on_date'' \<and> k' \<noteq> utf16 ''sendEmail''"
      by auto
    with same have "Map_get t' k' = Map_get t k'" by blast
    then show "handleToolCall t' w fc' = handleToolCall t w fc'"
      by (simp add: handleToolCall_by_key [OF k'])
  }
qed

theorem alias_precedence_witness:
  "handleToolCall [(utf16 ''get_weather_on_date'', resolves_with (JString (utf16 ''shadowed''))),
                   (utf16 ''weather'', resolves_with (JString (utf16 ''rain'')))] sample_world
      \<lparr>call_name = utf16 ''get_weather_on_date'', call_args = [], call_id = utf16 ''a''\<rparr>
     = Inr \<lparr>functionResponses =
              [\<lparr>response = \<lparr>output_field = Some (JString (utf16 ''rain'')), error_field = None\<rparr>,
                response_id = utf16 ''a''\<rparr>]\<rparr>
   \<and> handleToolCall [(utf16 ''sendEmail'', resolves_with (JString (utf16 ''shadowed'')))] sample_world
      \<lparr>call_name = utf16 ''sendEmail'', call_args = [], call_id = utf16 ''b''\<rparr>
     = Inl (ApplicationError (utf16 ''Unknown tool: '' @ quote @ utf16 ''sendEmail'' @ quote @ utf16 ''.'')
              INVALID_PARAMETER)"
proof -
  let ?t = "[(utf16 ''get_weather_on_date'', resolves_with (JString (utf16 ''shadowed''))),
                   (utf16 ''weather'', resolves_with (JString (utf16 ''rain'')))]"
  let ?a = "\<lparr>call_name = utf16 ''get_weather_on_date'', call_args = [], call_id = utf16 ''a''\<rparr>"
  let ?u = "[(utf16 ''sendEmail'', resolves_with (JString (utf16 ''shadowed'')))]"
  let ?b = "\<lparr>call_name = utf16 ''sendEmail'', call_args = [], call_id = utf16 ''b''\<rparr>"
  let ?obj = "\<lparr>getDeclaration = Some (Inr (JObject [])),
               execute = Some (\<lambda>a w. Inr (JString (utf16 ''rain'')))\<rparr>"
  have ha: "(call_name ?a = utf16 ''get_weather_on_date'' \<and> utf16 ''weather'' = utf16 ''weather'')
         \<or> (call_name ?a = utf16 ''sendEmail'' \<and> utf16 ''weather'' = utf16 ''email'')"
    by simp
  have hb: "(call_name ?b = utf16 ''get_weather_on_date'' \<and> utf16 ''email'' = utf16 ''weather'')
         \<or> (call_name ?b = utf16 ''sendEmail'' \<and> utf16 ''email'' = utf16 ''email'')"
    by simp
  have m: "Map_get ?t (utf16 ''weather'') = Some (Instance ?obj)
         \<and> call_execute (Instance ?obj) (call_args ?a) sample_world = Inr (JString (utf16 ''rain''))"
    by (simp add: Map_get_def resolves_with_def call_execute_def)
  have n: "not_tool (Map_get ?u (utf16 ''email''))"
    by (simp add: Map_get_def not_tool_def)
  have a: "handleToolCall ?t sample_world ?a
     = Inr \<lparr>functionResponses =
              [\<lparr>response = \<lparr>output_field = Some (JString (utf16 ''rain'')), error_field = None\<rparr>,
                response_id = call_id ?a\<rparr>]\<rparr>"
    using alias_precedence [OF ha, of ?t sample_world] m by blast
  have b: "handleToolCall ?u sample_world ?b
     = Inl (ApplicationError (utf16 ''Unknown tool: '' @ quote @ call_name ?b @ quote @ utf16 ''.'')
              INVALID_PARAMETER)"
    using alias_precedence [OF hb, of ?u sample_world] n by blast
  from a b show ?thesis by simp
qed

text \<open>
  The envelope of a call whose name resolves to a plugin. When \<open>execute\<close> resolves, it
  has one entry with the id of the call and the key \<open>output\<close> only; when \<open>execute\<close>
  rejects with a value whose \<open>message\<close> can be read, one entry with the id of the call
  and the key \<open>error\<close> only; and an envelope that is returned always has this shape. The
  value under the key is \<open>undefined\<close> when the plugin resolves with \<open>undefined\<close> or
  the value thrown has no \<open>message\<close>.
\<close>

lemma handleToolCall_returned_envelope:
  assumes "find_tool t (call_name fc) = Some (Instance obj)"
  shows "(\<forall>result. call_execute (Instance obj) (call_args fc) w = Inr result \<longrightarrow>
            handleToolCall t w fc =
              Inr \<lparr>functionResponses =
                     [\<lparr>response = \<lparr>output_field = Some result, error_field = None\<rparr>,
                       response_id = call_id fc\<rparr>]\<rparr>)
       \<and> (\<forall>err message. call_execute (Instance obj) (call_args fc) w = Inl err
              \<and> read_message err = Inr message \<longrightarrow>
            handleToolCall t w fc =
              Inr \<lparr>functionResponses =
                     [\<lparr>response = \<lparr>output_field = None, error_field = Some message\<rparr>,
                       response_id = call_id fc\<rparr>]\<rparr>)
       \<and> (\<forall>env. handleToolCall t w fc = Inr env \<longrightarrow>
            (\<exists>r. functionResponses env = [r] \<and> response_id r = call_id fc
               \<and> ((output_field (response r) \<noteq> None) \<noteq> (error_field (response r) \<noteq> None))
               \<and> ((output_field (response r) \<noteq> None)
                    = (\<exists>result. call_execute (Instance obj) (call_args fc) w = Inr result))
               \<and> ((error_field (response r) \<noteq> None)
                    = (\<exists>err. call_execute (Instance obj) (call_args fc) w = Inl err))))"
proof (intro conjI allI impI)
  fix result
  assume "call_execute (Instance obj) (call_args fc) w = Inr result"
  with assms show "handleToolCall t w fc =
              Inr \<lparr>functionResponses =
                     [\<lparr>response = \<lparr>output_field = Some result, error_field = None\<rparr>,
                       response_id = call_id fc\<rparr>]\<rparr>"
    by (rule handleToolCall_output)
next
  fix err message
  assume "call_execute (Instance obj) (call_args fc) w = Inl err \<and> read_message err = Inr message"
  with assms show "handleToolCall t w fc =
              Inr \<lparr>functionResponses =
                     [\<lparr>response = \<lparr>output_field = None, error_field = Some message\<rparr>,
                       response_id = call_id fc\<rparr>]\<rparr>"
    by (simp add: handleToolCall_error)
next
  fix env
  assume ret: "handleToolCall t w fc = Inr env"
  show "\<exists>r. functionResponses env = [r] \<and> response_id r = call_id fc
               \<and> ((output_field (response r) \<noteq> None) \<noteq> (error_field (response r) \<noteq> None))
               \<and> ((output_field (response r) \<noteq> None)
                    = (\<exists>result. call_execute (Instance obj) (call_args fc) w = Inr result))
               \<and> ((error_field (response r) \<noteq> None)
                    = (\<exists>err. call_execute (Instance obj) (call_args fc) w = Inl err))"
  proof (cases "call_execute (Instance obj) (call_args fc) w")
    case (Inr result)
    with assms ret have "env = \<lparr>functionResponses =
                  [\<lparr>response = \<lparr>output_field = Some result, error_field = None\<rparr>,
                    response_id = call_id fc\<rparr>]\<rparr>"
      by (simp add: handleToolCall_output)
    with Inr show ?thesis by simp
  next
    case (Inl err)
    show ?thesis
    proof (cases "read_message err")
      case (Inr message)
      with assms ret Inl have "env = \<lparr>functionResponses =
                  [\<lparr>response = \<lparr>output_field = None, error_field = Some message\<rparr>,
                    response_id = call_id fc\<rparr>]\<rparr>"
        by (simp add: handleToolCall_error)
      with Inl show ?thesis by simp
    next
      case (Inl thrown)
      with assms ret \<open>call_execute (Instance obj) (call_args fc) w = Inl err\<close>
      show ?thesis by (simp add: handleToolCall_rethrow)
    qed
  qed
qed

section \<open>What leaves \<open>handleToolCall\<close> as a throw\<close>

text \<open>
  A rejection with a value whose \<open>message\<close> can be read becomes an \<open>error\<close> entry
  (\<open>handleToolCall_error\<close>); so does the missing recipient of the mail tool.
\<close>

lemma mail_missing_recipient:
  assumes "constructor g = Inr t"
  shows "handleToolCall t w
           \<lparr>call_name = utf16 ''sendEmail'',
            call_args = [(utf16 ''to'', []), (utf16 ''subject'', s), (utf16 ''body'', b)],
            call_id = i\<rparr>
         = Inr \<lparr>functionResponses =
                  [\<lparr>response = \<lparr>output_field = None,
                                 error_field = Some (JString
                                   (utf16 ''Missing required fields: to, subject, or body.''))\<rparr>,
                    response_id = i\<rparr>]\<rparr>"
proof -
  have e: "EmailTool_execute [(utf16 ''to'', []), (utf16 ''subject'', s), (utf16 ''body'', b)] w
      = Inl (JError (utf16 ''Missing required fields: to, subject, or body.''))"
    by (simp add: EmailTool_execute_def arg_def present_def)
  from assms have "find_tool t (utf16 ''sendEmail'') = Some EmailTool"
    by (auto dest!: constructor_tools simp: find_tool_def Map_get_def)
  then show ?thesis
    using e by (simp add: handleToolCall_def EmailTool_def call_execute_def)
qed

text \<open>
  C1 at a failing input. A plugin is registered whose \<open>execute\<close> rejects with
  \<open>undefined\<close>. The \<open>catch\<close> of \<open>handleToolCall\<close> reads \<open>error.message\<close>,
  that read throws a \<open>TypeError\<close>, and the call ends with this throw instead of an
  envelope.
\<close>

theorem handleToolCall_undefined_rejection:
  "registerTool [] (utf16 ''flaky'') (rejects_with JUndefined)
     = (Inr (), [(utf16 ''flaky'', rejects_with JUndefined)])
   \<and> handleToolCall [(utf16 ''flaky'', rejects_with JUndefined)] sample_world
        \<lparr>call_name = utf16 ''flaky'', call_args = [], call_id = utf16 ''x''\<rparr>
     = Inl (cannot_read ''undefined'' ''message'')"
  by (simp add: registerTool_def Map_has_def rejects_with_def handleToolCall_def find_tool_def
        Map_get_def call_execute_def)

text \<open>
  C2 at a failing input. The name is a key of the map, the plugin's \<open>execute\<close> rejects
  with \<open>null\<close>, and the call ends with a throw that is not the unknown-tool error. (For
  a name that is no alias and no key the unknown-tool error is thrown,
  \<open>handleToolCall_unregistered\<close>.)
\<close>

theorem handleToolCall_null_rejection:
  "Map_has [(utf16 ''flaky'', rejects_with JNull)] (utf16 ''flaky'')
   \<and> handleToolCall [(utf16 ''flaky'', rejects_with JNull)] sample_world
        \<lparr>call_name = utf16 ''flaky'', call_args = [], call_id = utf16 ''x''\<rparr>
     = Inl (cannot_read ''null'' ''message'')
   \<and> cannot_read ''null'' ''message''
     \<noteq> ApplicationError (utf16 ''Unknown tool: '' @ quote @ utf16 ''flaky'' @ quote @ utf16 ''.'')
          INVALID_PARAMETER"
  by (simp add: Map_has_def rejects_with_def handleToolCall_def find_tool_def
        Map_get_def call_execute_def cannot_read_def)


end
